theory Spec2Isabelle
  imports Complex_Main
begin

section \<open>Data model of \<open>trsh.py\<close>\<close>

text \<open>
  Exceptions of the Python source as values. \<open>OSError\<close> stands for the whole family the
  source catches under that name (\<open>PermissionError\<close>, \<open>FileExistsError\<close>,
  \<open>FileNotFoundError\<close>, \<open>shutil.Error\<close> are all subclasses of it);
  \<open>IntegrityError\<close> is the one sqlite3 raises on a duplicate primary key;
  \<open>AttributeError\<close> is raised by an attribute lookup that the object does not provide;
  \<open>OverflowError\<close> by \<open>timedelta\<close> and \<open>datetime\<close> arithmetic out of their range.
\<close>

datatype error = OSError | IntegrityError | AttributeError | OverflowError

text \<open>
  The file system as the source sees it through \<open>pathlib\<close> and \<open>shutil\<close>: an association
  list from resolved absolute paths to nodes, one entry per path. A regular file carries its
  bytes and whether it can be opened for reading; a directory's descendants are the entries
  whose path starts with the directory's path followed by a slash.
\<close>

datatype node = File string bool | Dir

type_synonym filesys = "(string \<times> node) list"

text \<open>A row of table \<open>trash_items\<close> (columns as in \<open>_init_db\<close>).\<close>

record row =
  row_id :: string
  original_path :: string
  trashed_path :: string
  deletion_time :: int
  file_size :: int
  file_hash :: string
  mime_type :: "string option"
  deletion_reason :: "string option"
  tags :: "string list"
  restored :: bool
  compressed :: bool

text \<open>A row of table \<open>operations\<close>.\<close>

record operation =
  op_id :: int
  operation_type :: string
  timestamp :: int
  details :: "string list"
  undone :: bool

text \<open>
  The state a \<open>Trash\<close> object works on: the file system and the three tables of the
  catalog, each table in rowid (insertion) order. The tables are what the object's one
  connection sees; \<open>commit\<close> changes nothing in that view and is left out.
\<close>

record state =
  fs :: filesys
  trash_items :: "row list"
  operations :: "operation list"
  config :: "(string \<times> string) list"

text \<open>
  What the source takes from its environment and does not compute itself:
  \<open>files_dir\<close> (the holding root \<open>self.files_dir\<close>), \<open>Path.resolve\<close>,
  \<open>hashlib.sha256(...).hexdigest()\<close>, and the answers of the operating system that the
  file system's content does not decide:
  \<^item> \<open>stat_error p\<close>: \<open>p\<close> cannot be examined (\<open>stat\<close> fails with an error such as
    \<open>EACCES\<close>, which \<open>Path.exists()\<close> raises again);
  \<^item> \<open>size_error p\<close>: walking \<open>p\<close> for its size meets an access error;
  \<^item> \<open>remove_error p\<close>: the removal that \<open>unlink(p)\<close> or \<open>rmtree(p)\<close> asks for is
    refused (a directory that is not writable, for instance);
  \<^item> \<open>survives q\<close>: when an \<open>rmtree\<close> is refused, whether entry \<open>q\<close> below its
    argument is still there (the others had been removed before the error).
\<close>

record env =
  files_dir :: string
  resolve :: "string \<Rightarrow> string"
  sha256 :: "string \<Rightarrow> string"
  stat_error :: "string \<Rightarrow> bool"
  size_error :: "string \<Rightarrow> bool"
  remove_error :: "string \<Rightarrow> bool"
  survives :: "string \<Rightarrow> bool"

text \<open>
  The values one call of \<open>delete\<close> draws from the clock and from \<open>uuid.uuid4()\<close>:
  the uuid used inside \<open>_calculate_hash\<close>, the uuid of the new item, the time stamp of
  the item and the time stamp \<open>_log_operation\<close> reads afterwards.
\<close>

record draws =
  uuid_hash :: string
  uuid_item :: string
  now :: int
  log_time :: int

section \<open>Paths and file-system primitives\<close>

definition startswith :: "string \<Rightarrow> string \<Rightarrow> bool" where
  "startswith s p = (take (length p) s = p)"

definition under :: "string \<Rightarrow> string \<Rightarrow> bool" where
  \<comment> \<open>\<open>q\<close> is a proper descendant of directory \<open>d\<close>\<close>
  "under d q = startswith q (d @ ''/'')"

definition path_name :: "string \<Rightarrow> string" where
  \<comment> \<open>\<open>Path.name\<close>: the last component\<close>
  "path_name p = rev (takeWhile (\<lambda>c. c \<noteq> CHR ''/'') (rev p))"

definition path_parent :: "string \<Rightarrow> string" where
  \<comment> \<open>\<open>Path.parent\<close>\<close>
  "path_parent p =
     (let d = rev (drop 1 (dropWhile (\<lambda>c. c \<noteq> CHR ''/'') (rev p)))
      in if d = [] then ''/'' else d)"

definition ancestors :: "string \<Rightarrow> string list" where
  \<comment> \<open>the proper ancestors of a path below the root, outermost first\<close>
  "ancestors p = map (\<lambda>i. take i p) (filter (\<lambda>i. p ! i = CHR ''/'') [1..<length p])"

definition os_path_exists :: "filesys \<Rightarrow> string \<Rightarrow> bool" where
  \<comment> \<open>whether the file system has the path; \<open>os.path.exists\<close>, as \<open>shutil.move\<close> calls it\<close>
  "os_path_exists f p = (p = ''/'' \<or> map_of f p \<noteq> None)"

definition Path_exists :: "env \<Rightarrow> filesys \<Rightarrow> string \<Rightarrow> error + bool" where
  \<comment> \<open>\<open>Path.exists()\<close>: a path that cannot be examined raises, it does not answer \<open>False\<close>\<close>
  "Path_exists e f p = (if stat_error e p then Inl OSError else Inr (os_path_exists f p))"

text \<open>
  \<open>Path.is_file()\<close> is called by the source on a path whose \<open>exists()\<close> has just
  answered, or on the entries of a directory walk, where its failure is \<open>size_error\<close>.
\<close>

definition is_file :: "filesys \<Rightarrow> string \<Rightarrow> bool" where
  "is_file f p = (case map_of f p of Some (File c r) \<Rightarrow> True | _ \<Rightarrow> False)"

definition is_dir :: "filesys \<Rightarrow> string \<Rightarrow> bool" where
  "is_dir f p = (p = ''/'' \<or> map_of f p = Some Dir)"

text \<open>
  \<open>Path.unlink()\<close> and \<open>shutil.rmtree\<close>: the exception they end with, if any, and the
  file system they leave. A refused \<open>unlink\<close> leaves everything; a refused \<open>rmtree\<close>
  leaves its argument and those entries below it that it had not yet removed.
\<close>

definition unlink :: "env \<Rightarrow> string \<Rightarrow> filesys \<Rightarrow> error option \<times> filesys" where
  "unlink e p f =
     (if \<not> is_file f p \<or> remove_error e p then (Some OSError, f)
      else (None, filter (\<lambda>(q, n). q \<noteq> p) f))"

definition rmtree :: "env \<Rightarrow> string \<Rightarrow> filesys \<Rightarrow> error option \<times> filesys" where
  "rmtree e p f =
     (if map_of f p \<noteq> Some Dir then (Some OSError, f)
      else if remove_error e p
      then (Some OSError, filter (\<lambda>(q, n). \<not> under p q \<or> survives e q) f)
      else (None, filter (\<lambda>(q, n). q \<noteq> p \<and> \<not> under p q) f))"

definition rmdir_try :: "string \<Rightarrow> filesys \<Rightarrow> filesys" where
  \<comment> \<open>\<open>try: d.rmdir() except: pass\<close>: removes \<open>d\<close> when it is an empty directory\<close>
  "rmdir_try d f =
     (if map_of f d = Some Dir \<and> \<not> list_ex (\<lambda>(q, n). under d q) f
      then filter (\<lambda>(q, n). q \<noteq> d) f else f)"

fun mkdirs :: "string list \<Rightarrow> filesys \<Rightarrow> error + filesys" where
  "mkdirs [] f = Inr f"
| "mkdirs (d # ds) f =
     (case map_of f d of
        Some Dir \<Rightarrow> mkdirs ds f
      | Some (File c r) \<Rightarrow> Inl OSError
      | None \<Rightarrow> mkdirs ds (f @ [(d, Dir)]))"

definition mkdir_parents :: "string \<Rightarrow> filesys \<Rightarrow> error + filesys" where
  \<comment> \<open>\<open>Path.mkdir(parents=True, exist_ok=True)\<close>\<close>
  "mkdir_parents p f = (if p = ''/'' then Inr f else mkdirs (ancestors p @ [p]) f)"

definition rename_entries :: "string \<Rightarrow> string \<Rightarrow> filesys \<Rightarrow> filesys" where
  "rename_entries src dst f =
     map (\<lambda>(q, n). if q = src then (dst, n)
                    else if under src q then (dst @ drop (length src) q, n)
                    else (q, n))
         (filter (\<lambda>(q, n). q \<noteq> dst) f)"

definition move :: "string \<Rightarrow> string \<Rightarrow> filesys \<Rightarrow> error + filesys" where
  \<comment> \<open>\<open>shutil.move(src, dst)\<close> on one device\<close>
  "move src dst f =
     (let real_dst = (if is_dir f dst then dst @ ''/'' @ path_name src else dst) in
      if is_dir f dst \<and> os_path_exists f real_dst then Inl OSError
      else if map_of f src = None then Inl OSError
      else if is_dir f src \<and> (real_dst = src \<or> under src real_dst) then Inl OSError
      else if is_dir f src \<and> os_path_exists f real_dst then Inl OSError
      else if is_dir f (path_parent real_dst) then Inr (rename_entries src real_dst f)
      else if is_dir f src then
        (case mkdir_parents (path_parent real_dst) f of
           Inl e \<Rightarrow> Inl e
         | Inr f' \<Rightarrow> Inr (rename_entries src real_dst f'))
      else Inl OSError)"

section \<open>Helper methods of class \<open>Trash\<close>\<close>

definition critical :: "string list" where
  "critical = [''/'', ''/bin'', ''/sbin'', ''/usr'', ''/etc'', ''/var'', ''/boot'',
               ''/sys'', ''/proc'', ''/dev'']"

definition is_critical_path :: "env \<Rightarrow> string \<Rightarrow> bool" where
  "is_critical_path e path =
     (let path_str = resolve e path
      in list_ex (\<lambda>p. path_str = p \<or> startswith path_str (p @ ''/'')) critical)"

definition st_size :: "node \<Rightarrow> int" where
  "st_size n = (case n of File c r \<Rightarrow> int (length c) | Dir \<Rightarrow> 0)"

definition get_path_size :: "env \<Rightarrow> filesys \<Rightarrow> string \<Rightarrow> error + int" where
  "get_path_size e f path =
     (if size_error e path then Inl OSError
      else case map_of f path of
        Some (File c r) \<Rightarrow> Inr (int (length c))
      | _ \<Rightarrow> Inr (sum_list (map (\<lambda>(q, n). st_size n) (filter (\<lambda>(q, n). under path q) f))))"

definition open_read :: "filesys \<Rightarrow> string \<Rightarrow> error + string" where
  \<comment> \<open>\<open>open(path, 'rb')\<close> and the chunked reads: the bytes, or an access error\<close>
  "open_read f p =
     (case map_of f p of
        Some (File c r) \<Rightarrow> if r then Inr c else Inl OSError
      | _ \<Rightarrow> Inl OSError)"

definition calculate_hash :: "env \<Rightarrow> filesys \<Rightarrow> string \<Rightarrow> string \<Rightarrow> string" where
  \<comment> \<open>\<open>u\<close> is the \<open>uuid.uuid4()\<close> the method draws when it needs one\<close>
  "calculate_hash e f u path =
     (if is_file f path then
        (case open_read f path of
           Inr c \<Rightarrow> ''file_'' @ sha256 e c
         | Inl err \<Rightarrow> ''file_'' @ u)
      else ''dir_'' @ u)"

definition next_op_id :: "operation list \<Rightarrow> int" where
  \<comment> \<open>\<open>INTEGER PRIMARY KEY AUTOINCREMENT\<close>; rows of \<open>operations\<close> are never deleted\<close>
  "next_op_id ops = foldr (\<lambda>op m. max (op_id op) m) ops 0 + 1"

definition log_operation :: "string \<Rightarrow> string list \<Rightarrow> int \<Rightarrow> state \<Rightarrow> state" where
  "log_operation op_type dets t s =
     s\<lparr>operations := operations s @
         [\<lparr>op_id = next_op_id (operations s), operation_type = op_type, timestamp = t,
           details = dets, undone = False\<rparr>]\<rparr>"

definition insert_item :: "row \<Rightarrow> row list \<Rightarrow> error + row list" where
  \<comment> \<open>\<open>INSERT INTO trash_items\<close>: column \<open>id\<close> is the primary key\<close>
  "insert_item r rows =
     (if list_ex (\<lambda>x. row_id x = row_id r) rows then Inl IntegrityError else Inr (rows @ [r]))"

section \<open>\<open>Trash.delete\<close>\<close>

definition remove_source :: "env \<Rightarrow> string \<Rightarrow> filesys \<Rightarrow> error option \<times> filesys" where
  \<comment> \<open>\<open>if path.is_file(): path.unlink() else: shutil.rmtree(path)\<close>\<close>
  "remove_source e path f = (if is_file f path then unlink e path f else rmtree e path f)"

definition undo_move :: "string \<Rightarrow> string \<Rightarrow> string \<Rightarrow> filesys \<Rightarrow> filesys" where
  \<comment> \<open>\<open>try: shutil.move(trashed_path, path); trash_subdir.rmdir() except: pass\<close>\<close>
  "undo_move trashed path trash_subdir f =
     (case move trashed path f of
        Inl err \<Rightarrow> f
      | Inr f' \<Rightarrow> rmdir_try trash_subdir f')"

definition move_to_trash :: "env \<Rightarrow> draws \<Rightarrow> string \<Rightarrow> int \<Rightarrow> string \<Rightarrow> string list
                             \<Rightarrow> string option \<Rightarrow> state \<Rightarrow> (error + bool) \<times> state" where
  \<comment> \<open>the part of \<open>delete\<close> from \<open>trash_subdir.mkdir\<close> on\<close>
  "move_to_trash e d path fsize fhash tgs reason s =
     (let item_id = uuid_item d;
          trash_subdir = files_dir e @ ''/'' @ item_id;
          trashed = trash_subdir @ ''/'' @ path_name path
      in
      (case mkdir_parents trash_subdir (fs s) of
         Inl err \<Rightarrow> (Inl err, s)
       | Inr f1 \<Rightarrow>
          (case move path trashed f1 of
             Inl err \<Rightarrow> (Inr False, s\<lparr>fs := rmdir_try trash_subdir f1\<rparr>)
           | Inr f2 \<Rightarrow>
              (case insert_item
                      \<lparr>row_id = item_id, original_path = path, trashed_path = trashed,
                       deletion_time = now d, file_size = fsize, file_hash = fhash,
                       mime_type = None, deletion_reason = reason, tags = tgs,
                       restored = False, compressed = False\<rparr>
                      (trash_items s) of
                 Inl err \<Rightarrow> (Inr False, s\<lparr>fs := undo_move trashed path trash_subdir f2\<rparr>)
               | Inr items \<Rightarrow>
                  (Inr True,
                   log_operation ''delete'' [item_id] (log_time d)
                     (s\<lparr>fs := f2, trash_items := items\<rparr>))))))"

definition is_duplicate :: "string \<Rightarrow> row list \<Rightarrow> bool" where
  \<comment> \<open>\<open>existing and file_hash.startswith('file_')\<close>\<close>
  "is_duplicate fhash rows =
     (list_ex (\<lambda>r. file_hash r = fhash \<and> \<not> restored r) rows \<and> startswith fhash ''file_'')"

definition delete :: "env \<Rightarrow> draws \<Rightarrow> string \<Rightarrow> string list \<Rightarrow> string option \<Rightarrow> bool
                      \<Rightarrow> state \<Rightarrow> (error + bool) \<times> state" where
  \<comment> \<open>\<open>Inl\<close>: the exception \<open>delete\<close> ends with. \<open>path.exists()\<close> and the removal of a
      duplicate's source stand outside every \<open>try\<close>.\<close>
  "delete e d filepath tgs reason dry_run s =
     (case Path_exists e (fs s) (resolve e filepath) of
        Inl err \<Rightarrow> (Inl err, s)
      | Inr found \<Rightarrow>
         if \<not> found then (Inr False, s)
         else if is_critical_path e filepath then (Inr False, s)
         else
           (let path = resolve e filepath in
            (case get_path_size e (fs s) path of
               Inl err \<Rightarrow> (if err = OSError then (Inr False, s) else (Inl err, s))
             | Inr fsize \<Rightarrow>
                (let fhash = calculate_hash e (fs s) (uuid_hash d) path in
                 if is_duplicate fhash (trash_items s) then
                   (if \<not> dry_run then
                      (case remove_source e path (fs s) of
                         (Some err, f') \<Rightarrow> (Inl err, s\<lparr>fs := f'\<rparr>)
                       | (None, f') \<Rightarrow> (Inr True, s\<lparr>fs := f'\<rparr>))
                    else (Inr True, s))
                 else if dry_run then (Inr True, s)
                 else move_to_trash e d path fsize fhash tgs reason s))))"

section \<open>Class \<open>TrashItem\<close>\<close>

text \<open>
  The rows the queries return are \<open>sqlite3.Row\<close> objects (\<open>conn.row_factory = sqlite3.Row\<close>).
  Such an object offers indexing by column name or position, \<open>keys()\<close>, iteration, \<open>len\<close>
  and comparison, and no method \<open>get\<close>: the attribute lookup \<open>row.get\<close> raises
  \<open>AttributeError\<close>, whatever the row holds.
\<close>

definition row_get :: "row \<Rightarrow> string \<Rightarrow> bool \<Rightarrow> error + bool" where
  "row_get r key dflt = Inl AttributeError"

text \<open>
  \<open>TrashItem.__init__\<close> copies the columns one by one, by index (\<open>row['id']\<close> and so
  on, which every row of \<open>SELECT *\<close> answers), and ends with
  \<open>self.compressed = bool(row.get('compressed', 0))\<close>. An item has the fields of a row.
\<close>

definition TrashItem_init :: "row \<Rightarrow> error + row" where
  "TrashItem_init r =
     (case row_get r ''compressed'' False of
        Inl e \<Rightarrow> Inl e
      | Inr c \<Rightarrow> Inr (r\<lparr>compressed := c\<rparr>))"

section \<open>Queries\<close>

definition lower :: "char \<Rightarrow> char" where
  "lower c = (let n = (of_char c :: nat) in if 65 \<le> n \<and> n \<le> 90 then char_of (n + 32) else c)"

text \<open>SQLite's \<open>LIKE\<close>: \<open>%\<close> matches any run of characters, \<open>_\<close> any one character,
  ASCII letters match without regard to case.\<close>

fun like :: "string \<Rightarrow> string \<Rightarrow> bool" where
  "like [] s = (s = [])"
| "like (p # ps) [] = (p = CHR ''%'' \<and> like ps [])"
| "like (p # ps) (c # cs) =
     (if p = CHR ''%'' then like ps (c # cs) \<or> like (p # ps) cs
      else (p = CHR ''_'' \<or> lower p = lower c) \<and> like ps cs)"

definition not_restored :: "row list \<Rightarrow> row list" where
  \<comment> \<open>\<open>WHERE restored = 0\<close>\<close>
  "not_restored rows = filter (\<lambda>r. \<not> restored r) rows"

definition total_size :: "row list \<Rightarrow> int" where
  \<comment> \<open>\<open>SELECT COALESCE(SUM(file_size), 0) FROM trash_items WHERE restored = 0\<close>\<close>
  "total_size rows = sum_list (map file_size (not_restored rows))"

text \<open>
  \<open>ORDER BY\<close> is a stable sort of the rows in rowid order: rows with equal keys keep their
  insertion order (SQL itself leaves the order of ties open).
\<close>

definition by_deletion_time_asc :: "row list \<Rightarrow> row list" where
  "by_deletion_time_asc rows = sort_key deletion_time rows"

definition by_deletion_time_desc :: "row list \<Rightarrow> row list" where
  "by_deletion_time_desc rows = sort_key (\<lambda>r. - deletion_time r) rows"

definition limit :: "int \<Rightarrow> 'a list \<Rightarrow> 'a list" where
  \<comment> \<open>\<open>LIMIT n\<close>; a negative \<open>n\<close> means no limit\<close>
  "limit n xs = (if n < 0 then xs else take (nat n) xs)"

definition delete_row :: "string \<Rightarrow> row list \<Rightarrow> row list" where
  \<comment> \<open>\<open>DELETE FROM trash_items WHERE id = ?\<close>\<close>
  "delete_row i rows = filter (\<lambda>r. row_id r \<noteq> i) rows"

definition mark_restored :: "string \<Rightarrow> row list \<Rightarrow> row list" where
  \<comment> \<open>\<open>UPDATE trash_items SET restored = 1 WHERE id = ?\<close>\<close>
  "mark_restored i rows = map (\<lambda>r. if row_id r = i then r\<lparr>restored := True\<rparr> else r) rows"

definition mark_undone :: "int \<Rightarrow> state \<Rightarrow> state" where
  \<comment> \<open>\<open>UPDATE operations SET undone = 1 WHERE id = ?\<close>\<close>
  "mark_undone i s =
     s\<lparr>operations := map (\<lambda>op. if op_id op = i then op\<lparr>undone := True\<rparr> else op) (operations s)\<rparr>"

section \<open>\<open>Trash.restore\<close>\<close>

definition restore_item :: "env \<Rightarrow> string option \<Rightarrow> row \<Rightarrow> state \<Rightarrow> (error + int) \<times> state" where
  \<comment> \<open>the loop body after the dry-run test; the number is what is added to \<open>restored_count\<close>\<close>
  "restore_item e output item s =
     (let target = (case output of
                      Some out \<Rightarrow> out @ ''/'' @ path_name (original_path item)
                    | None \<Rightarrow> original_path item)
      in
      (case Path_exists e (fs s) target of
         Inl err \<Rightarrow> (Inl err, s)
       | Inr target_there \<Rightarrow>
          if target_there then (Inr 0, s)
          else
            (case Path_exists e (fs s) (trashed_path item) of
               Inl err \<Rightarrow> (Inl err, s)
             | Inr trashed_there \<Rightarrow>
                if \<not> trashed_there then
                  (Inr 0, s\<lparr>trash_items := delete_row (row_id item) (trash_items s)\<rparr>)
                else
                  (case mkdir_parents (path_parent target) (fs s) of
                     Inl err \<Rightarrow> (Inl err, s)
                   | Inr f1 \<Rightarrow>
                      (case move (trashed_path item) target f1 of
                         Inl err \<Rightarrow> (Inr 0, s\<lparr>fs := f1\<rparr>)
                       | Inr f2 \<Rightarrow>
                          (Inr 1, s\<lparr>fs := rmdir_try (path_parent (trashed_path item)) f2,
                                    trash_items := mark_restored (row_id item) (trash_items s)\<rparr>))))))"

fun restore_loop :: "env \<Rightarrow> string option \<Rightarrow> bool \<Rightarrow> row list \<Rightarrow> int \<Rightarrow> state
                     \<Rightarrow> (error + int) \<times> state" where
  "restore_loop e output dry_run [] restored_count s = (Inr restored_count, s)"
| "restore_loop e output dry_run (r # rows) restored_count s =
     (case TrashItem_init r of
        Inl err \<Rightarrow> (Inl err, s)
      | Inr item \<Rightarrow>
         if dry_run then restore_loop e output dry_run rows restored_count s
         else
           (case restore_item e output item s of
              (Inl err, s') \<Rightarrow> (Inl err, s')
            | (Inr k, s') \<Rightarrow> restore_loop e output dry_run rows (restored_count + k) s'))"

definition restore :: "env \<Rightarrow> string option \<Rightarrow> string option \<Rightarrow> bool \<Rightarrow> bool \<Rightarrow> state
                       \<Rightarrow> (error + int) \<times> state" where
  "restore e pattern output dry_run interactive s =
     (if interactive then (Inr 0, s)
      else
        (case pattern of
           None \<Rightarrow> (Inr 0, s)
         | Some pat \<Rightarrow>
            if pat = [] then (Inr 0, s)
            else
              (let items = by_deletion_time_desc
                     (filter (\<lambda>r. like (''%'' @ pat @ ''%'') (original_path r))
                        (not_restored (trash_items s)))
               in if items = [] then (Inr 0, s)
                  else restore_loop e output dry_run items 0 s)))"

section \<open>\<open>Trash.empty\<close>\<close>

definition empty_trash :: "env \<Rightarrow> bool \<Rightarrow> bool \<Rightarrow> bool \<Rightarrow> state \<Rightarrow> state" where
  \<comment> \<open>\<open>answer_yes\<close>: the line read by \<open>input\<close> is \<open>yes\<close> after \<open>strip().lower()\<close>.
      An exception of \<open>rmtree\<close> or \<open>mkdir\<close> is caught: the rows stay.\<close>
  "empty_trash e force dry_run answer_yes s =
     (if not_restored (trash_items s) = [] then s
      else if dry_run then s
      else if \<not> force \<and> \<not> answer_yes then s
      else
        (case rmtree e (files_dir e) (fs s) of
           (Some err, f1) \<Rightarrow> s\<lparr>fs := f1\<rparr>
         | (None, f1) \<Rightarrow>
            if \<not> is_dir f1 (path_parent (files_dir e)) then s\<lparr>fs := f1\<rparr>
            else s\<lparr>fs := f1 @ [(files_dir e, Dir)],
                   trash_items := filter restored (trash_items s)\<rparr>))"

section \<open>\<open>Trash.purge\<close>\<close>

fun TrashItems :: "row list \<Rightarrow> error + row list" where
  \<comment> \<open>\<open>[TrashItem(row) for row in rows]\<close>\<close>
  "TrashItems [] = Inr []"
| "TrashItems (r # rs) =
     (case TrashItem_init r of
        Inl e \<Rightarrow> Inl e
      | Inr item \<Rightarrow>
         (case TrashItems rs of
            Inl e \<Rightarrow> Inl e
          | Inr items \<Rightarrow> Inr (item # items)))"

fun quota_select :: "int \<Rightarrow> row list \<Rightarrow> int \<Rightarrow> error + row list" where
  \<comment> \<open>the loop that fills \<open>items_to_purge\<close> until \<open>current_size\<close> fits the quota\<close>
  "quota_select quota_bytes [] current_size = Inr []"
| "quota_select quota_bytes (r # rs) current_size =
     (if current_size \<le> quota_bytes then Inr []
      else
        (case TrashItem_init r of
           Inl e \<Rightarrow> Inl e
         | Inr item \<Rightarrow>
            (case quota_select quota_bytes rs (current_size - file_size item) of
               Inl e \<Rightarrow> Inl e
             | Inr items \<Rightarrow> Inr (item # items))))"

definition int_of_float :: "rat \<Rightarrow> int" where
  \<comment> \<open>Python's \<open>int(x)\<close> on a number with a fraction: truncation toward zero\<close>
  "int_of_float x = (if x < 0 then - \<lfloor>- x\<rfloor> else \<lfloor>x\<rfloor>)"

definition items_to_purge :: "int option \<Rightarrow> rat option \<Rightarrow> int \<Rightarrow> state \<Rightarrow> error + row list" where
  \<comment> \<open>the selection of \<open>purge\<close>; the two early returns leave nothing to purge.
      \<open>if older_than:\<close> and \<open>elif size_quota:\<close> are Python truth tests: \<open>None\<close> and
      zero both fail them. \<open>t\<close> is \<open>datetime.now()\<close> in whole seconds, a day has 86400
      of them; \<open>timedelta\<close> takes at most 999999999 days either way and a \<open>datetime\<close>
      stays within the years 1 to 9999. The quota, a float in the source, is an exact
      rational here.\<close>
  "items_to_purge older_than size_quota t s =
     (if older_than \<noteq> None \<and> older_than \<noteq> Some 0 then
        (let n = the older_than; cutoff = t - n * 86400 in
         if n > 999999999 \<or> n < - 999999999 \<or> cutoff < - 62135596800 \<or> cutoff > 253402300799
         then Inl OverflowError
         else TrashItems (by_deletion_time_asc
                (filter (\<lambda>r. deletion_time r < cutoff) (not_restored (trash_items s)))))
      else if size_quota \<noteq> None \<and> size_quota \<noteq> Some 0 then
        (let total = total_size (trash_items s);
             quota_bytes = int_of_float (the size_quota * 1024 * 1024 * 1024)
         in if total \<le> quota_bytes then Inr []
            else quota_select quota_bytes
                   (by_deletion_time_asc (not_restored (trash_items s))) total)
      else Inr [])"

definition purge_item :: "env \<Rightarrow> row \<Rightarrow> state \<Rightarrow> state" where
  \<comment> \<open>the \<open>try\<close> block of the purge loop: an exception ends it before the row is deleted\<close>
  "purge_item e item s =
     (let tp = trashed_path item in
      (case Path_exists e (fs s) tp of
         Inl err \<Rightarrow> s
       | Inr there \<Rightarrow>
          if \<not> there then s\<lparr>trash_items := delete_row (row_id item) (trash_items s)\<rparr>
          else
            (case remove_source e tp (fs s) of
               (Some err, f1) \<Rightarrow> s\<lparr>fs := f1\<rparr>
             | (None, f1) \<Rightarrow>
                s\<lparr>fs := rmdir_try (path_parent tp) f1,
                  trash_items := delete_row (row_id item) (trash_items s)\<rparr>)))"

definition purge :: "env \<Rightarrow> int option \<Rightarrow> rat option \<Rightarrow> bool \<Rightarrow> int \<Rightarrow> state
                     \<Rightarrow> error option \<times> state" where
  \<comment> \<open>the first component is the exception \<open>purge\<close> ends with, if any\<close>
  "purge e older_than size_quota dry_run t s =
     (case items_to_purge older_than size_quota t s of
        Inl err \<Rightarrow> (Some err, s)
      | Inr items \<Rightarrow>
         if items = [] then (None, s)
         else if dry_run then (None, s)
         else (None, fold (purge_item e) items s))"

section \<open>\<open>Trash.undo\<close>\<close>

definition undo_item :: "row \<Rightarrow> string \<Rightarrow> state \<Rightarrow> state" where
  \<comment> \<open>the \<open>try\<close> block: make the parents, move back, mark as restored; an exception stops it\<close>
  "undo_item item item_id s =
     (case mkdir_parents (path_parent (original_path item)) (fs s) of
        Inl err \<Rightarrow> s
      | Inr f1 \<Rightarrow>
         (case move (trashed_path item) (original_path item) f1 of
            Inl err \<Rightarrow> s\<lparr>fs := f1\<rparr>
          | Inr f2 \<Rightarrow> s\<lparr>fs := f2, trash_items := mark_restored item_id (trash_items s)\<rparr>))"

fun undo_items :: "string list \<Rightarrow> state \<Rightarrow> error option \<times> state" where
  "undo_items [] s = (None, s)"
| "undo_items (item_id # ids) s =
     (case find (\<lambda>r. row_id r = item_id) (trash_items s) of
        None \<Rightarrow> undo_items ids s
      | Some r \<Rightarrow>
         (case TrashItem_init r of
            Inl e \<Rightarrow> (Some e, s)
          | Inr item \<Rightarrow> undo_items ids (undo_item item item_id s)))"

fun undo_ops :: "operation list \<Rightarrow> state \<Rightarrow> error option \<times> state" where
  "undo_ops [] s = (None, s)"
| "undo_ops (op # ops) s =
     (if operation_type op = ''delete'' then
        (case undo_items (details op) s of
           (Some e, s') \<Rightarrow> (Some e, s')
         | (None, s') \<Rightarrow> undo_ops ops (mark_undone (op_id op) s'))
      else undo_ops ops (mark_undone (op_id op) s))"

definition undo :: "int \<Rightarrow> state \<Rightarrow> error option \<times> state" where
  "undo count s =
     (let ops = limit count
                  (sort_key (\<lambda>op. - timestamp op) (filter (\<lambda>op. \<not> undone op) (operations s)))
      in if ops = [] then (None, s) else undo_ops ops s)"

section \<open>\<open>Trash.verify\<close> and \<open>Trash.config_set\<close>\<close>

definition orphaned :: "env \<Rightarrow> state \<Rightarrow> string list" where
  \<comment> \<open>names of the directories directly under \<open>files_dir\<close> that no non-restored row has as id\<close>
  "orphaned e s =
     filter (\<lambda>n. n \<notin> set (map row_id (not_restored (trash_items s))))
       (map (\<lambda>(q, n). path_name q)
          (filter (\<lambda>(q, n). n = Dir \<and> path_name q \<noteq> [] \<and> q = files_dir e @ ''/'' @ path_name q)
             (fs s)))"

fun verify_rows :: "env \<Rightarrow> bool \<Rightarrow> row list \<Rightarrow> state \<Rightarrow> error option \<times> state" where
  "verify_rows e repair [] s = (None, s)"
| "verify_rows e repair (r # rs) s =
     (case TrashItem_init r of
        Inl err \<Rightarrow> (Some err, s)
      | Inr item \<Rightarrow>
         (case Path_exists e (fs s) (trashed_path item) of
            Inl err \<Rightarrow> (Some err, s)
          | Inr there \<Rightarrow>
             if \<not> there \<and> repair
             then verify_rows e repair rs
                    (s\<lparr>trash_items := delete_row (row_id item) (trash_items s)\<rparr>)
             else verify_rows e repair rs s))"

definition verify :: "env \<Rightarrow> bool \<Rightarrow> state \<Rightarrow> error option \<times> state" where
  \<comment> \<open>an exception of the \<open>rmtree\<close> of an orphan is caught and the next orphan is tried\<close>
  "verify e repair s =
     (case Path_exists e (fs s) (files_dir e) of
        Inl err \<Rightarrow> (Some err, s)
      | Inr there \<Rightarrow>
         (let s1 = (if there \<and> repair
                    then s\<lparr>fs := fold (\<lambda>n f. snd (rmtree e (files_dir e @ ''/'' @ n) f))
                                  (orphaned e s) (fs s)\<rparr>
                    else s)
          in verify_rows e repair (not_restored (trash_items s1)) s1))"

definition config_set :: "string \<Rightarrow> string \<Rightarrow> state \<Rightarrow> state" where
  \<comment> \<open>\<open>INSERT OR REPLACE INTO config\<close>\<close>
  "config_set k v s = s\<lparr>config := filter (\<lambda>(k', v'). k' \<noteq> k) (config s) @ [(k, v)]\<rparr>"

section \<open>The mutating commands of the store\<close>

datatype command =
    Delete draws string "string list" "string option" bool
  | Restore "string option" "string option" bool bool
  | Empty bool bool bool
  | Purge "int option" "rat option" bool int
  | Undo int
  | Verify bool
  | ConfigSet string string

fun exec :: "env \<Rightarrow> command \<Rightarrow> state \<Rightarrow> state" where
  "exec e (Delete d filepath tgs reason dry_run) s = snd (delete e d filepath tgs reason dry_run s)"
| "exec e (Restore pattern output dry_run interactive) s =
     snd (restore e pattern output dry_run interactive s)"
| "exec e (Empty force dry_run answer_yes) s = empty_trash e force dry_run answer_yes s"
| "exec e (Purge older_than size_quota dry_run t) s =
     snd (purge e older_than size_quota dry_run t s)"
| "exec e (Undo count) s = snd (undo count s)"
| "exec e (Verify repair) s = snd (verify e repair s)"
| "exec e (ConfigSet k v) s = config_set k v s"

section \<open>The protected set, in the words of the specification and as the gate has it\<close>

definition nested_under :: "string \<Rightarrow> string \<Rightarrow> bool" where
  \<comment> \<open>the specification's "nested under": \<open>q\<close> lies below directory \<open>dir\<close> in the
      directory tree; below \<open>/\<close> lies every other absolute path\<close>
  "nested_under dir q =
     (q \<noteq> dir \<and> startswith q (if dir = ''/'' then dir else dir @ ''/''))"

definition spec_protected :: "string \<Rightarrow> bool" where
  \<comment> \<open>"equals or is nested under any of a fixed system-critical root set"\<close>
  "spec_protected q = list_ex (\<lambda>r. q = r \<or> nested_under r q) critical"

definition gate_protected :: "string \<Rightarrow> bool" where
  \<comment> \<open>one of the ten roots itself, or a path below one of the nine roots other than \<open>/\<close>\<close>
  "gate_protected q =
     (q \<in> set critical \<or> list_ex (\<lambda>r. r \<noteq> ''/'' \<and> nested_under r q) critical)"

section \<open>How one command may change the catalog\<close>

definition rows_kept :: "row list \<Rightarrow> row list \<Rightarrow> bool" where
  \<comment> \<open>every row afterwards is a row from before, unchanged or with \<open>restored\<close> set\<close>
  "rows_kept before after =
     (\<forall>r' \<in> set after. \<exists>r \<in> set before. r' = r \<or> r' = r\<lparr>restored := True\<rparr>)"

section \<open>Example runs\<close>

definition ex_env :: env where
  "ex_env = \<lparr>files_dir = ''/home/u/.trashbin/files'', resolve = (\<lambda>p. p),
             sha256 = (\<lambda>c. c), stat_error = (\<lambda>p. False), size_error = (\<lambda>p. False),
             remove_error = (\<lambda>p. False), survives = (\<lambda>p. False)\<rparr>"


definition ex_env_readonly :: env where
  \<comment> \<open>as \<open>ex_env\<close>, but \<open>/home/u/c.txt\<close> cannot be removed from its directory\<close>
  "ex_env_readonly = ex_env\<lparr>remove_error := (\<lambda>p. p = ''/home/u/c.txt'')\<rparr>"

definition ex_env_nostat :: env where
  \<comment> \<open>as \<open>ex_env\<close>, but \<open>/etc/passwd\<close> cannot be examined\<close>
  "ex_env_nostat = ex_env\<lparr>stat_error := (\<lambda>p. p = ''/etc/passwd'')\<rparr>"

definition ex_state :: state where
  "ex_state =
     \<lparr>fs = [(''/home'', Dir), (''/home/u'', Dir),
            (''/home/u/a.txt'', File ''hello'' True),
            (''/home/u/b.txt'', File ''world!'' True),
            (''/home/u/c.txt'', File ''hello'' True),
            (''/home/u/secret'', File ''abc'' False),
            (''/home/u/.trashbin'', Dir), (''/home/u/.trashbin/files'', Dir)],
      trash_items = [], operations = [], config = []\<rparr>"

definition ex_state_sys :: state where
  \<comment> \<open>as \<open>ex_state\<close>, with \<open>/etc/passwd\<close> in the file system\<close>
  "ex_state_sys =
     ex_state\<lparr>fs := fs ex_state @ [(''/etc'', Dir), (''/etc/passwd'', File ''root'' True)]\<rparr>"

definition ex_d1 :: draws where
  "ex_d1 = \<lparr>uuid_hash = ''u1'', uuid_item = ''id1'', now = 1000, log_time = 1000\<rparr>"

definition ex_d2 :: draws where
  "ex_d2 = \<lparr>uuid_hash = ''u2'', uuid_item = ''id2'', now = 2000, log_time = 2000\<rparr>"

definition ex_after_a :: state where
  \<comment> \<open>\<open>a.txt\<close> has been deleted\<close>
  "ex_after_a = snd (delete ex_env ex_d1 ''/home/u/a.txt'' [] None False ex_state)"

definition ex_after_ab :: state where
  \<comment> \<open>then \<open>b.txt\<close> has been deleted\<close>
  "ex_after_ab = snd (delete ex_env ex_d2 ''/home/u/b.txt'' [] None False ex_after_a)"

definition ex_recreated :: state where
  \<comment> \<open>\<open>a.txt\<close> has been deleted, and a new file has been written at its path\<close>
  "ex_recreated = ex_after_a\<lparr>fs := fs ex_after_a @ [(''/home/u/a.txt'', File ''new'' True)]\<rparr>"

definition ex_d0 :: draws where
  \<comment> \<open>draws whose item uuid is the id of a row already in the catalog\<close>
  "ex_d0 = \<lparr>uuid_hash = ''u0'', uuid_item = ''id0'', now = 900, log_time = 900\<rparr>"

definition ex_row0 :: row where
  "ex_row0 = \<lparr>row_id = ''id0'', original_path = ''/home/u/old.txt'',
      trashed_path = ''/home/u/.trashbin/files/id0/old.txt'', deletion_time = 500,
      file_size = 3, file_hash = ''file_old'', mime_type = None, deletion_reason = None,
      tags = [], restored = True, compressed = False\<rparr>"

definition ex_restored :: state where
  "ex_restored = ex_state\<lparr>trash_items := [ex_row0]\<rparr>"

section \<open>The protected-path gate\<close>

lemma is_critical_path_gate:
  "\<not> startswith (resolve e p) ''//'' \<Longrightarrow> is_critical_path e p = gate_protected (resolve e p)"
  by (auto simp add: is_critical_path_def gate_protected_def nested_under_def critical_def
        startswith_def Let_def)

text \<open>
  C1, the claim as amended. \<open>Path.resolve\<close> gives no path that begins with two slashes.
  When the argument resolves to one of the ten critical roots or to a path below one of the
  nine roots other than \<open>/\<close>, \<open>delete\<close> does not succeed and the file system, the catalog
  and the operation log are what they were: it returns \<open>False\<close>, or, when the path cannot
  be examined, it ends with the error that \<open>path.exists()\<close> raises. For every other path,
  the paths below \<open>/\<close> among them, the gate \<open>_is_critical_path\<close> does not trigger.
\<close>

theorem delete_refuses_gate_protected:
  assumes "\<not> startswith (resolve e p) ''//''"
  shows "(gate_protected (resolve e p) \<longrightarrow>
            delete e d p tgs reason dry_run s =
              (if stat_error e (resolve e p) then Inl OSError else Inr False, s))
         \<and> (\<not> gate_protected (resolve e p) \<longrightarrow> \<not> is_critical_path e p)"
  by (simp add: delete_def Path_exists_def is_critical_path_gate [OF assms])

theorem delete_refuses_gate_protected_witness:
  "Path_exists ex_env (fs ex_state_sys) (resolve ex_env ''/etc/passwd'') = Inr True
   \<and> delete ex_env ex_d1 ''/etc/passwd'' [] None False ex_state_sys = (Inr False, ex_state_sys)
   \<and> delete ex_env_nostat ex_d1 ''/etc/passwd'' [] None False ex_state_sys
       = (Inl OSError, ex_state_sys)
   \<and> \<not> is_critical_path ex_env ''/home/u/a.txt''"
proof -
  have there: "Path_exists ex_env (fs ex_state_sys) (resolve ex_env ''/etc/passwd'') = Inr True"
    by code_simp
  have a: "\<not> startswith (resolve ex_env ''/etc/passwd'') ''//''"
    and a': "\<not> startswith (resolve ex_env_nostat ''/etc/passwd'') ''//''"
    and b: "\<not> startswith (resolve ex_env ''/home/u/a.txt'') ''//''"
    by (simp_all add: startswith_def ex_env_def ex_env_nostat_def)
  have g: "gate_protected (resolve ex_env ''/etc/passwd'')"
    and g': "gate_protected (resolve ex_env_nostat ''/etc/passwd'')"
    and n: "\<not> gate_protected (resolve ex_env ''/home/u/a.txt'')"
    by (simp_all add: gate_protected_def nested_under_def critical_def startswith_def
          ex_env_def ex_env_nostat_def)
  have st: "\<not> stat_error ex_env (resolve ex_env ''/etc/passwd'')"
    and st': "stat_error ex_env_nostat (resolve ex_env_nostat ''/etc/passwd'')"
    by (simp_all add: ex_env_def ex_env_nostat_def)
  from delete_refuses_gate_protected [OF a, where d = ex_d1 and tgs = "[]" and reason = None
      and dry_run = False and s = ex_state_sys] g st
  have 1: "delete ex_env ex_d1 ''/etc/passwd'' [] None False ex_state_sys = (Inr False, ex_state_sys)"
    by simp
  from delete_refuses_gate_protected [OF a', where d = ex_d1 and tgs = "[]" and reason = None
      and dry_run = False and s = ex_state_sys] g' st'
  have 2: "delete ex_env_nostat ex_d1 ''/etc/passwd'' [] None False ex_state_sys
             = (Inl OSError, ex_state_sys)"
    by simp
  from delete_refuses_gate_protected [OF b, where d = ex_d1 and tgs = "[]" and reason = None
      and dry_run = False and s = ex_state] n
  have 3: "\<not> is_critical_path ex_env ''/home/u/a.txt''"
    by simp
  from there 1 2 3 show ?thesis by simp
qed

text \<open>
  C1 as stated fails: \<open>/home/u/a.txt\<close> is nested under the critical root \<open>/\<close>, and its
  delete succeeds and adds a row to the catalog.
\<close>

theorem delete_below_root_counterexample:
  "spec_protected (resolve ex_env ''/home/u/a.txt'')
   \<and> fst (delete ex_env ex_d1 ''/home/u/a.txt'' [] None False ex_state) = Inr True
   \<and> length (trash_items (snd (delete ex_env ex_d1 ''/home/u/a.txt'' [] None False ex_state))) = 1
   \<and> trash_items ex_state = []"
  by code_simp

section \<open>Deduplication in \<open>delete\<close>\<close>

lemma map_of_filter_other: "map_of (filter (\<lambda>(q, n). q \<noteq> p) f) p = None"
  by (induction f) auto

lemma file_hash_is_file: "startswith (calculate_hash e f u p) ''file_'' \<Longrightarrow> is_file f p"
  by (simp add: calculate_hash_def startswith_def split: if_splits)

lemma set_unlink: "set (snd (unlink e p f)) \<subseteq> set f"
  by (auto simp add: unlink_def)

text \<open>
  C2, the claim as amended. A delete that is not a dry run, of a source whose computed hash
  begins with \<open>file_\<close> and is the hash of some non-restored row. Such a source is a regular
  file, and the file system afterwards is what \<open>unlink\<close> of the source leaves: no entry, in
  the holding area or elsewhere, has been added; the catalog and the operation log are what
  they were. If the unlink is not refused, the source is gone and the result is \<open>True\<close>.
  If the unlink is refused, \<open>delete\<close> ends with that error and nothing has changed.
\<close>

theorem delete_duplicate:
  assumes "Path_exists e (fs s) (resolve e p) = Inr True"
    and "\<not> is_critical_path e p"
    and "get_path_size e (fs s) (resolve e p) = Inr n"
    and "startswith (calculate_hash e (fs s) (uuid_hash d) (resolve e p)) ''file_''"
    and "\<exists>r \<in> set (trash_items s).
           file_hash r = calculate_hash e (fs s) (uuid_hash d) (resolve e p) \<and> \<not> restored r"
  shows "is_file (fs s) (resolve e p)
    \<and> fs (snd (delete e d p tgs reason False s)) = snd (unlink e (resolve e p) (fs s))
    \<and> set (fs (snd (delete e d p tgs reason False s))) \<subseteq> set (fs s)
    \<and> trash_items (snd (delete e d p tgs reason False s)) = trash_items s
    \<and> operations (snd (delete e d p tgs reason False s)) = operations s
    \<and> (\<not> remove_error e (resolve e p) \<longrightarrow>
          fst (delete e d p tgs reason False s) = Inr True
          \<and> map_of (fs (snd (delete e d p tgs reason False s))) (resolve e p) = None)
    \<and> (remove_error e (resolve e p) \<longrightarrow> delete e d p tgs reason False s = (Inl OSError, s))"
proof -
  let ?path = "resolve e p"
  let ?h = "calculate_hash e (fs s) (uuid_hash d) ?path"
  from assms(4) have isf: "is_file (fs s) ?path"
    by (rule file_hash_is_file)
  from assms(4,5) have dup: "is_duplicate ?h (trash_items s)"
    by (auto simp add: is_duplicate_def list_ex_iff)
  from assms(1) have found: "Path_exists e (fs s) ?path = Inr True" .
  show ?thesis
  proof (cases "remove_error e ?path")
    case True
    with isf have "remove_source e ?path (fs s) = (Some OSError, fs s)"
      by (simp add: remove_source_def unlink_def)
    with found assms(2,3) dup
    have "delete e d p tgs reason False s = (Inl OSError, s)"
      by (simp add: delete_def Let_def)
    with True isf show ?thesis
      by (simp add: unlink_def)
  next
    case False
    with isf
    have rm: "remove_source e ?path (fs s) = (None, filter (\<lambda>(q, n). q \<noteq> ?path) (fs s))"
      by (simp add: remove_source_def unlink_def)
    with found assms(2,3) dup
    have "delete e d p tgs reason False s
            = (Inr True, s\<lparr>fs := filter (\<lambda>(q, n). q \<noteq> ?path) (fs s)\<rparr>)"
      by (simp add: delete_def Let_def)
    with False isf show ?thesis
      by (simp add: unlink_def map_of_filter_other)
  qed
qed

theorem delete_duplicate_witness:
  "fst (delete ex_env ex_d2 ''/home/u/c.txt'' [] None False ex_after_a) = Inr True
   \<and> map_of (fs (snd (delete ex_env ex_d2 ''/home/u/c.txt'' [] None False ex_after_a)))
        ''/home/u/c.txt'' = None
   \<and> trash_items (snd (delete ex_env ex_d2 ''/home/u/c.txt'' [] None False ex_after_a)) =
       trash_items ex_after_a
   \<and> operations (snd (delete ex_env ex_d2 ''/home/u/c.txt'' [] None False ex_after_a)) =
       operations ex_after_a
   \<and> delete ex_env_readonly ex_d2 ''/home/u/c.txt'' [] None False ex_after_a
       = (Inl OSError, ex_after_a)"
proof -
  have 1: "Path_exists ex_env (fs ex_after_a) (resolve ex_env ''/home/u/c.txt'') = Inr True"
    by code_simp
  have 2: "\<not> is_critical_path ex_env ''/home/u/c.txt''"
    by code_simp
  have 3: "get_path_size ex_env (fs ex_after_a) (resolve ex_env ''/home/u/c.txt'') = Inr 5"
    by code_simp
  have 4: "startswith (calculate_hash ex_env (fs ex_after_a) (uuid_hash ex_d2)
             (resolve ex_env ''/home/u/c.txt'')) ''file_''"
    by code_simp
  have 5: "\<exists>r \<in> set (trash_items ex_after_a).
             file_hash r = calculate_hash ex_env (fs ex_after_a) (uuid_hash ex_d2)
               (resolve ex_env ''/home/u/c.txt'') \<and> \<not> restored r"
    by code_simp
  have 6: "\<not> remove_error ex_env (resolve ex_env ''/home/u/c.txt'')"
    "resolve ex_env ''/home/u/c.txt'' = ''/home/u/c.txt''"
    by (simp_all add: ex_env_def)
  have r1: "Path_exists ex_env_readonly (fs ex_after_a) (resolve ex_env_readonly ''/home/u/c.txt'')
              = Inr True"
    by code_simp
  have r2: "\<not> is_critical_path ex_env_readonly ''/home/u/c.txt''"
    by code_simp
  have r3: "get_path_size ex_env_readonly (fs ex_after_a)
              (resolve ex_env_readonly ''/home/u/c.txt'') = Inr 5"
    by code_simp
  have r4: "startswith (calculate_hash ex_env_readonly (fs ex_after_a) (uuid_hash ex_d2)
             (resolve ex_env_readonly ''/home/u/c.txt'')) ''file_''"
    by code_simp
  have r5: "\<exists>r \<in> set (trash_items ex_after_a).
             file_hash r = calculate_hash ex_env_readonly (fs ex_after_a) (uuid_hash ex_d2)
               (resolve ex_env_readonly ''/home/u/c.txt'') \<and> \<not> restored r"
    by code_simp
  have r6: "remove_error ex_env_readonly (resolve ex_env_readonly ''/home/u/c.txt'')"
    "resolve ex_env_readonly ''/home/u/c.txt'' = ''/home/u/c.txt''"
    by (simp_all add: ex_env_readonly_def ex_env_def)
  note ok = delete_duplicate [OF 1 2 3 4 5, where tgs = "[]" and reason = None, unfolded 6(2)]
  note refused = delete_duplicate [OF r1 r2 r3 r4 r5, where tgs = "[]" and reason = None,
      unfolded r6(2)]
  from ok 6(1) [unfolded 6(2)] refused r6(1) [unfolded r6(2)] show ?thesis
    by blast
qed

text \<open>
  C2 as stated fails: \<open>/home/u/c.txt\<close> has the bytes of the trashed \<open>a.txt\<close>, so its
  hash begins with \<open>file_\<close> and is the hash of a non-restored row, but its directory
  does not let it be removed. The delete ends with the error of \<open>unlink\<close>: no success is
  returned and the source is still on disk.
\<close>

theorem delete_duplicate_refused_counterexample:
  "Path_exists ex_env_readonly (fs ex_after_a) ''/home/u/c.txt'' = Inr True
   \<and> startswith (calculate_hash ex_env_readonly (fs ex_after_a) (uuid_hash ex_d2) ''/home/u/c.txt'')
        ''file_''
   \<and> map file_hash (not_restored (trash_items ex_after_a))
       = [calculate_hash ex_env_readonly (fs ex_after_a) (uuid_hash ex_d2) ''/home/u/c.txt'']
   \<and> fst (delete ex_env_readonly ex_d2 ''/home/u/c.txt'' [] None False ex_after_a) = Inl OSError
   \<and> map_of (fs (snd (delete ex_env_readonly ex_d2 ''/home/u/c.txt'' [] None False ex_after_a)))
        ''/home/u/c.txt'' = Some (File ''hello'' True)"
  by code_simp

text \<open>
  C3, on the code: after \<open>a.txt\<close> and then \<open>c.txt\<close>, which has the same bytes, have both
  been deleted with success, the catalog holds one row, not two; one copy is in the holding
  area and the second source has been unlinked.
\<close>

theorem delete_twice_same_content:
  "fst (delete ex_env ex_d1 ''/home/u/a.txt'' [] None False ex_state) = Inr True
   \<and> fst (delete ex_env ex_d2 ''/home/u/c.txt'' [] None False ex_after_a) = Inr True
   \<and> map file_hash (trash_items (snd (delete ex_env ex_d2 ''/home/u/c.txt'' [] None False ex_after_a)))
       = [''file_hello'']
   \<and> map_of (fs (snd (delete ex_env ex_d2 ''/home/u/c.txt'' [] None False ex_after_a)))
        ''/home/u/c.txt'' = None
   \<and> filter (\<lambda>(q, n). under (files_dir ex_env) q \<and> n \<noteq> Dir)
        (fs (snd (delete ex_env ex_d2 ''/home/u/c.txt'' [] None False ex_after_a)))
       = [(''/home/u/.trashbin/files/id1/a.txt'', File ''hello'' True)]"
  by code_simp

section \<open>Access errors in \<open>delete\<close>\<close>




section \<open>The operation log\<close>

lemma operations_log_operation:
  "operations (log_operation ty ds t s) = operations s @
     [\<lparr>op_id = next_op_id (operations s), operation_type = ty, timestamp = t, details = ds, undone = False\<rparr>]"
  by (simp add: log_operation_def)

lemma operations_move_to_trash:
  "operations (snd (move_to_trash e d path n h tgs reason s)) = operations s
   \<or> (fst (move_to_trash e d path n h tgs reason s) = Inr True
      \<and> (\<exists>op. operations (snd (move_to_trash e d path n h tgs reason s)) = operations s @ [op]
            \<and> operation_type op = ''delete'' \<and> details op = [uuid_item d] \<and> \<not> undone op))"
  by (simp add: move_to_trash_def Let_def operations_log_operation split: sum.splits)

lemma operations_delete:
  "operations (snd (delete e d p tgs reason dry_run s)) = operations s
   \<or> (fst (delete e d p tgs reason dry_run s) = Inr True \<and> \<not> dry_run
      \<and> \<not> is_duplicate (calculate_hash e (fs s) (uuid_hash d) (resolve e p)) (trash_items s)
      \<and> (\<exists>op. operations (snd (delete e d p tgs reason dry_run s)) = operations s @ [op]
            \<and> operation_type op = ''delete'' \<and> details op = [uuid_item d] \<and> \<not> undone op))"
  using operations_move_to_trash [of e d "resolve e p" _ "calculate_hash e (fs s) (uuid_hash d) (resolve e p)" tgs reason s]
  by (auto simp add: delete_def Let_def split: sum.splits prod.splits option.splits)

lemma operations_restore_item: "operations (snd (restore_item e out item s)) = operations s"
  by (simp add: restore_item_def Let_def split: sum.splits)

lemma operations_restore_loop: "operations (snd (restore_loop e out dr rows k s)) = operations s"
proof (induction rows arbitrary: k s)
  case Nil
  show ?case by simp
next
  case (Cons r rows)
  show ?case
  proof (cases "TrashItem_init r")
    case (Inl err)
    then show ?thesis by simp
  next
    case (Inr item)
    show ?thesis
    proof (cases "restore_item e out item s")
      case (Pair res s')
      with operations_restore_item [of e out item s] have "operations s' = operations s" by simp
      with Inr Pair Cons.IH show ?thesis by (cases res) auto
    qed
  qed
qed

lemma operations_restore: "operations (snd (restore e pat out dr ia s)) = operations s"
  by (simp add: restore_def Let_def operations_restore_loop split: option.splits)

lemma operations_empty_trash: "operations (empty_trash e force dr ans s) = operations s"
  by (simp add: empty_trash_def Let_def split: prod.splits option.splits)

lemma operations_purge_item: "operations (purge_item e item s) = operations s"
  by (simp add: purge_item_def Let_def split: sum.splits prod.splits option.splits)

lemma operations_fold_purge_item: "operations (fold (purge_item e) items s) = operations s"
  by (induction items arbitrary: s) (simp_all add: operations_purge_item)

lemma operations_purge: "operations (snd (purge e ot q dr t s)) = operations s"
  by (simp add: purge_def operations_fold_purge_item split: sum.splits)

lemma operations_undo_item: "operations (undo_item item i s) = operations s"
  by (simp add: undo_item_def split: sum.splits)

lemma operations_undo_items: "operations (snd (undo_items ids s)) = operations s"
  by (induction ids arbitrary: s) (simp_all add: operations_undo_item split: option.splits sum.splits)

lemma op_ids_mark_undone: "map op_id (operations (mark_undone i s)) = map op_id (operations s)"
  by (simp add: mark_undone_def comp_def)

lemma op_ids_undo_ops: "map op_id (operations (snd (undo_ops ops s))) = map op_id (operations s)"
proof (induction ops arbitrary: s)
  case Nil
  show ?case by simp
next
  case (Cons op ops)
  show ?case
  proof (cases "undo_items (details op) s")
    case (Pair res s')
    with operations_undo_items [of "details op" s] have "operations s' = operations s" by simp
    with Pair Cons.IH show ?thesis
      by (cases res) (simp_all add: op_ids_mark_undone)
  qed
qed

lemma op_ids_undo: "map op_id (operations (snd (undo n s))) = map op_id (operations s)"
  by (simp add: undo_def Let_def op_ids_undo_ops)

lemma operations_verify_rows: "operations (snd (verify_rows e repair rows s)) = operations s"
  by (induction rows arbitrary: s) (auto split: sum.splits)

lemma operations_verify: "operations (snd (verify e repair s)) = operations s"
  by (simp add: verify_def Let_def operations_verify_rows split: sum.splits)


text \<open>
  C8. \<open>delete\<close> leaves the operation log as it was, or it returned \<open>True\<close>, was not a
  dry run, met no duplicate, and appended exactly one record, of type \<open>delete\<close>, listing
  the new item's id and not undone. \<open>purge\<close>, \<open>empty\<close>, \<open>restore\<close>, \<open>verify\<close> and
  \<open>config_set\<close> leave the log as it was; \<open>undo\<close> appends and removes no record (it only
  sets \<open>undone\<close>).
\<close>

theorem operation_log_only_delete_appends:
  "(operations (snd (delete e d p tgs reason dry_run s)) = operations s
     \<or> (fst (delete e d p tgs reason dry_run s) = Inr True \<and> \<not> dry_run
        \<and> \<not> is_duplicate (calculate_hash e (fs s) (uuid_hash d) (resolve e p)) (trash_items s)
        \<and> (\<exists>op. operations (snd (delete e d p tgs reason dry_run s)) = operations s @ [op]
              \<and> operation_type op = ''delete'' \<and> details op = [uuid_item d] \<and> \<not> undone op)))
   \<and> operations (snd (purge e older_than size_quota dra t s)) = operations s
   \<and> operations (empty_trash e force drb answer_yes s) = operations s
   \<and> operations (snd (restore e pattern out drc interactive s)) = operations s
   \<and> map op_id (operations (snd (undo count s))) = map op_id (operations s)
   \<and> operations (snd (verify e repair s)) = operations s
   \<and> operations (config_set k v s) = operations s"
  using operations_delete [of e d p tgs reason dry_run s]
  by (simp add: operations_purge operations_empty_trash operations_restore op_ids_undo
        operations_verify config_set_def)

theorem operation_log_only_delete_appends_witness:
  "operations (snd (delete ex_env ex_d1 ''/home/u/a.txt'' [] None False ex_state)) \<noteq> operations ex_state
   \<and> fst (delete ex_env ex_d1 ''/home/u/a.txt'' [] None False ex_state) = Inr True
   \<and> (\<exists>op. operations (snd (delete ex_env ex_d1 ''/home/u/a.txt'' [] None False ex_state)) =
             operations ex_state @ [op] \<and> operation_type op = ''delete'')
   \<and> operations (empty_trash ex_env True False False ex_state) = operations ex_state"
proof -
  have ne: "operations (snd (delete ex_env ex_d1 ''/home/u/a.txt'' [] None False ex_state)) \<noteq> operations ex_state"
    by code_simp
  note t = operation_log_only_delete_appends [where e = ex_env and d = ex_d1
      and p = "''/home/u/a.txt''" and tgs = "[]" and reason = None and dry_run = False
      and s = ex_state and older_than = None and size_quota = None and dra = False and t = 0
      and force = True and drb = False and answer_yes = False and pattern = None
      and out = None and drc = False and interactive = False and count = 1
      and repair = False and k = "[]" and v = "[]"]
  from t ne have "fst (delete ex_env ex_d1 ''/home/u/a.txt'' [] None False ex_state) = Inr True
      \<and> (\<exists>op. operations (snd (delete ex_env ex_d1 ''/home/u/a.txt'' [] None False ex_state)) =
             operations ex_state @ [op] \<and> operation_type op = ''delete'')"
    by blast
  moreover from t have "operations (empty_trash ex_env True False False ex_state) = operations ex_state"
    by blast
  ultimately show ?thesis using ne by blast
qed

section \<open>The \<open>restored\<close> flag\<close>

lemma rows_kept_refl: "rows_kept rows rows"
  by (auto simp add: rows_kept_def)

lemma rows_kept_trans:
  assumes "rows_kept a b" and "rows_kept b c"
  shows "rows_kept a c"
  unfolding rows_kept_def
proof
  fix r2
  assume "r2 \<in> set c"
  with assms(2) obtain r1 where r1: "r1 \<in> set b" "r2 = r1 \<or> r2 = r1\<lparr>restored := True\<rparr>"
    unfolding rows_kept_def by blast
  with assms(1) obtain r0 where r0: "r0 \<in> set a" "r1 = r0 \<or> r1 = r0\<lparr>restored := True\<rparr>"
    unfolding rows_kept_def by blast
  from r1(2) r0(2) have "r2 = r0 \<or> r2 = r0\<lparr>restored := True\<rparr>"
    by auto
  with r0(1) show "\<exists>r \<in> set a. r2 = r \<or> r2 = r\<lparr>restored := True\<rparr>"
    by blast
qed

lemma rows_kept_filter: "rows_kept rows (filter P rows)"
  by (auto simp add: rows_kept_def)

lemma rows_kept_delete_row: "rows_kept rows (delete_row i rows)"
  by (simp add: delete_row_def rows_kept_filter)

lemma rows_kept_mark_restored: "rows_kept rows (mark_restored i rows)"
  by (auto simp add: rows_kept_def mark_restored_def)

lemma rows_kept_restore_item:
  "rows_kept (trash_items s) (trash_items (snd (restore_item e out item s)))"
  by (simp add: restore_item_def Let_def rows_kept_refl rows_kept_delete_row
        rows_kept_mark_restored split: sum.splits)

lemma rows_kept_restore_loop:
  "rows_kept (trash_items s) (trash_items (snd (restore_loop e out dr rows k s)))"
proof (induction rows arbitrary: k s)
  case Nil
  show ?case by (simp add: rows_kept_refl)
next
  case (Cons r rows)
  show ?case
  proof (cases "TrashItem_init r")
    case (Inl err)
    then show ?thesis by (simp add: rows_kept_refl)
  next
    case item: (Inr item)
    show ?thesis
    proof (cases dr)
      case True
      with item Cons.IH [of s k] show ?thesis by simp
    next
      case False
      obtain res s' where step: "restore_item e out item s = (res, s')"
        by (cases "restore_item e out item s")
      with rows_kept_restore_item [of s e out item]
      have kept: "rows_kept (trash_items s) (trash_items s')" by simp
      show ?thesis
      proof (cases res)
        case (Inl err)
        with item False step kept show ?thesis by simp
      next
        case (Inr k')
        with item False step
        have "restore_loop e out dr (r # rows) k s = restore_loop e out dr rows (k + k') s'"
          by simp
        with rows_kept_trans [OF kept Cons.IH [of s' "k + k'"]] show ?thesis by simp
      qed
    qed
  qed
qed

lemma rows_kept_restore:
  "rows_kept (trash_items s) (trash_items (snd (restore e pat out dr ia s)))"
  by (simp add: restore_def Let_def rows_kept_refl rows_kept_restore_loop split: option.splits)

lemma rows_kept_empty_trash:
  "rows_kept (trash_items s) (trash_items (empty_trash e force dr ans s))"
  by (simp add: empty_trash_def Let_def rows_kept_refl rows_kept_filter
        split: prod.splits option.splits)

lemma rows_kept_purge_item:
  "rows_kept (trash_items s) (trash_items (purge_item e item s))"
  by (simp add: purge_item_def Let_def rows_kept_refl rows_kept_delete_row
        split: sum.splits prod.splits option.splits)

lemma rows_kept_fold_purge_item:
  "rows_kept (trash_items s) (trash_items (fold (purge_item e) items s))"
proof (induction items arbitrary: s)
  case Nil
  show ?case by (simp add: rows_kept_refl)
next
  case (Cons item items)
  from rows_kept_trans [OF rows_kept_purge_item [of s e item] Cons.IH [of "purge_item e item s"]]
  show ?case by simp
qed

lemma rows_kept_purge:
  "rows_kept (trash_items s) (trash_items (snd (purge e ot q dr t s)))"
  by (simp add: purge_def rows_kept_refl rows_kept_fold_purge_item split: sum.splits)

lemma rows_kept_undo_item: "rows_kept (trash_items s) (trash_items (undo_item item i s))"
  by (simp add: undo_item_def rows_kept_refl rows_kept_mark_restored split: sum.splits)

lemma rows_kept_undo_items:
  "rows_kept (trash_items s) (trash_items (snd (undo_items ids s)))"
proof (induction ids arbitrary: s)
  case Nil
  show ?case by (simp add: rows_kept_refl)
next
  case (Cons i ids)
  show ?case
  proof (cases "find (\<lambda>r. row_id r = i) (trash_items s)")
    case None
    with Cons.IH [of s] show ?thesis by simp
  next
    case (Some r)
    show ?thesis
    proof (cases "TrashItem_init r")
      case (Inl err)
      with Some show ?thesis by (simp add: rows_kept_refl)
    next
      case (Inr item)
      with Some have "undo_items (i # ids) s = undo_items ids (undo_item item i s)"
        by simp
      with rows_kept_trans [OF rows_kept_undo_item [of s item i] Cons.IH [of "undo_item item i s"]]
      show ?thesis by simp
    qed
  qed
qed

lemma trash_items_mark_undone: "trash_items (mark_undone i s) = trash_items s"
  by (simp add: mark_undone_def)

lemma rows_kept_undo_ops:
  "rows_kept (trash_items s) (trash_items (snd (undo_ops ops s)))"
proof (induction ops arbitrary: s)
  case Nil
  show ?case by (simp add: rows_kept_refl)
next
  case (Cons op ops)
  show ?case
  proof (cases "operation_type op = ''delete''")
    case False
    with Cons.IH [of "mark_undone (op_id op) s"] show ?thesis
      by (simp add: trash_items_mark_undone)
  next
    case True
    obtain res s' where step: "undo_items (details op) s = (res, s')"
      by (cases "undo_items (details op) s")
    with rows_kept_undo_items [of s "details op"]
    have kept: "rows_kept (trash_items s) (trash_items s')" by simp
    show ?thesis
    proof (cases res)
      case (Some err)
      with True step kept show ?thesis by simp
    next
      case None
      with True step
      have "undo_ops (op # ops) s = undo_ops ops (mark_undone (op_id op) s')"
        by simp
      moreover from kept
      have "rows_kept (trash_items s) (trash_items (mark_undone (op_id op) s'))"
        by (simp add: trash_items_mark_undone)
      ultimately show ?thesis
        using rows_kept_trans [OF _ Cons.IH [of "mark_undone (op_id op) s'"]] by simp
    qed
  qed
qed

lemma rows_kept_undo: "rows_kept (trash_items s) (trash_items (snd (undo n s)))"
  by (simp add: undo_def Let_def rows_kept_refl rows_kept_undo_ops)

lemma rows_kept_verify_rows:
  "rows_kept (trash_items s) (trash_items (snd (verify_rows e repair rows s)))"
proof (induction rows arbitrary: s)
  case Nil
  show ?case by (simp add: rows_kept_refl)
next
  case (Cons r rows)
  show ?case
  proof (cases "TrashItem_init r")
    case (Inl err)
    then show ?thesis by (simp add: rows_kept_refl)
  next
    case item: (Inr item)
    show ?thesis
    proof (cases "Path_exists e (fs s) (trashed_path item)")
      case (Inl err)
      with item show ?thesis by (simp add: rows_kept_refl)
    next
      case (Inr there)
      show ?thesis
      proof (cases "\<not> there \<and> repair")
        case False
        with item Inr Cons.IH [of s] show ?thesis by auto
      next
        case True
        let ?s' = "s\<lparr>trash_items := delete_row (row_id item) (trash_items s)\<rparr>"
        from True item Inr
        have "verify_rows e repair (r # rows) s = verify_rows e repair rows ?s'"
          by simp
        moreover have "rows_kept (trash_items s) (trash_items ?s')"
          by (simp add: rows_kept_delete_row)
        ultimately show ?thesis
          using rows_kept_trans [OF _ Cons.IH [of ?s']] by simp
      qed
    qed
  qed
qed

lemma rows_kept_verify: "rows_kept (trash_items s) (trash_items (snd (verify e repair s)))"
proof (cases "Path_exists e (fs s) (files_dir e)")
  case (Inl err)
  then show ?thesis by (simp add: verify_def rows_kept_refl)
next
  case (Inr there)
  let ?s1 = "if there \<and> repair
             then s\<lparr>fs := fold (\<lambda>n f. snd (rmtree e (files_dir e @ ''/'' @ n) f))
                           (orphaned e s) (fs s)\<rparr>
             else s"
  have same: "trash_items ?s1 = trash_items s" by simp
  from Inr have "verify e repair s = verify_rows e repair (not_restored (trash_items ?s1)) ?s1"
    by (simp add: verify_def Let_def)
  with rows_kept_verify_rows [of ?s1 e repair "not_restored (trash_items ?s1)"] same
  show ?thesis by simp
qed

lemma trash_items_move_to_trash:
  "trash_items (snd (move_to_trash e d path n h tgs reason s)) = trash_items s
   \<or> (\<exists>new. trash_items (snd (move_to_trash e d path n h tgs reason s)) = trash_items s @ [new]
          \<and> row_id new \<notin> row_id ` set (trash_items s))"
  by (auto simp add: move_to_trash_def Let_def log_operation_def insert_item_def list_ex_iff
        split: sum.splits if_splits)

lemma trash_items_delete:
  "trash_items (snd (delete e d p tgs reason dr s)) = trash_items s
   \<or> (\<exists>new. trash_items (snd (delete e d p tgs reason dr s)) = trash_items s @ [new]
          \<and> row_id new \<notin> row_id ` set (trash_items s))"
  using trash_items_move_to_trash [of e d "resolve e p" _ "calculate_hash e (fs s) (uuid_hash d) (resolve e p)" tgs reason s]
  by (auto simp add: delete_def Let_def split: sum.splits prod.splits option.splits)

lemma rows_kept_monotone:
  assumes "rows_kept rows rows'" "distinct (map row_id rows)" "r \<in> set rows" "restored r"
    "r' \<in> set rows'" "row_id r' = row_id r"
  shows "restored r'"
proof -
  from assms(1,5) obtain r0 where r0: "r0 \<in> set rows" "r' = r0 \<or> r' = r0\<lparr>restored := True\<rparr>"
    by (auto simp add: rows_kept_def)
  with assms(6) have "row_id r0 = row_id r" by auto
  with assms(2,3) r0(1) have "r0 = r"
    by (auto simp add: distinct_map inj_on_def)
  with r0(2) assms(4) show ?thesis by auto
qed

text \<open>
  C10. Whatever command runs (\<open>delete\<close>, \<open>restore\<close>, \<open>empty\<close>, \<open>purge\<close>, \<open>undo\<close>,
  \<open>verify\<close>, \<open>config_set\<close>), a row that was restored before and whose id is still in
  the catalog afterwards is still restored: no command sets the flag back. Ids are the
  primary key of \<open>trash_items\<close>, hence distinct.
\<close>

theorem restored_flag_monotone:
  assumes "distinct (map row_id (trash_items s))"
    and "r \<in> set (trash_items s)" and "restored r"
    and "r' \<in> set (trash_items (exec e c s))" and "row_id r' = row_id r"
  shows "restored r'"
proof (cases c)
  case (Delete d p tgs reason dr)
  from trash_items_delete [of e d p tgs reason dr s] show ?thesis
  proof
    assume "trash_items (snd (delete e d p tgs reason dr s)) = trash_items s"
    with Delete assms show ?thesis
      by (auto simp add: distinct_map inj_on_def)
  next
    assume "\<exists>new. trash_items (snd (delete e d p tgs reason dr s)) = trash_items s @ [new]
          \<and> row_id new \<notin> row_id ` set (trash_items s)"
    then obtain new where new: "trash_items (snd (delete e d p tgs reason dr s)) = trash_items s @ [new]"
      "row_id new \<notin> row_id ` set (trash_items s)" by blast
    with Delete assms(4) have "r' \<in> set (trash_items s) \<or> r' = new" by auto
    with new(2) assms(2,5) have "r' \<in> set (trash_items s)" by auto
    with assms show ?thesis by (auto simp add: distinct_map inj_on_def)
  qed
next
  case (Restore pat out dr ia)
  with assms rows_kept_monotone [OF rows_kept_restore [of s e pat out dr ia]] show ?thesis by simp
next
  case (Empty force dr ans)
  with assms rows_kept_monotone [OF rows_kept_empty_trash [of s e force dr ans]] show ?thesis by simp
next
  case (Purge ot q dr t)
  with assms rows_kept_monotone [OF rows_kept_purge [of s e ot q dr t]] show ?thesis by simp
next
  case (Undo n)
  with assms rows_kept_monotone [OF rows_kept_undo [of s n]] show ?thesis by simp
next
  case (Verify repair)
  with assms rows_kept_monotone [OF rows_kept_verify [of s e repair]] show ?thesis by simp
next
  case (ConfigSet k v)
  with assms show ?thesis by (auto simp add: config_set_def distinct_map inj_on_def)
qed

theorem restored_flag_monotone_witness:
  "distinct (map row_id (trash_items ex_restored))
   \<and> ex_row0 \<in> set (trash_items ex_restored) \<and> restored ex_row0
   \<and> ex_row0 \<in> set (trash_items (exec ex_env (Delete ex_d0 ''/home/u/a.txt'' [] None False) ex_restored))
   \<and> fst (delete ex_env ex_d0 ''/home/u/a.txt'' [] None False ex_restored) = Inr False"
proof -
  have 1: "distinct (map row_id (trash_items ex_restored))" by code_simp
  have 2: "ex_row0 \<in> set (trash_items ex_restored)" by (simp add: ex_restored_def)
  have 3: "restored ex_row0" by (simp add: ex_row0_def)
  have 4: "ex_row0 \<in> set (trash_items (exec ex_env (Delete ex_d0 ''/home/u/a.txt'' [] None False) ex_restored))"
    by code_simp
  have 5: "fst (delete ex_env ex_d0 ''/home/u/a.txt'' [] None False ex_restored) = Inr False"
    by code_simp
  from restored_flag_monotone [OF 1 2 3 4 refl] 1 2 4 5 show ?thesis by simp
qed

section \<open>\<open>undo\<close>, \<open>purge\<close> and \<open>restore\<close> on a catalog that holds rows\<close>

lemma TrashItem_init_raises: "TrashItem_init r = Inl AttributeError"
  by (simp add: TrashItem_init_def row_get_def)

lemma fs_undo_items: "fs (snd (undo_items ids s)) = fs s"
  by (induction ids arbitrary: s) (simp_all add: TrashItem_init_raises split: option.splits)

lemma fs_undo_ops: "fs (snd (undo_ops ops s)) = fs s"
proof (induction ops arbitrary: s)
  case Nil
  show ?case by simp
next
  case (Cons op ops)
  obtain res s' where step: "undo_items (details op) s = (res, s')"
    by (cases "undo_items (details op) s")
  with fs_undo_items [of "details op" s] have same: "fs s' = fs s" by simp
  have mu: "fs (mark_undone i x) = fs x" for i x
    by (simp add: mark_undone_def)
  from step same Cons.IH [of "mark_undone (op_id op) s'"] Cons.IH [of "mark_undone (op_id op) s"]
  show ?case by (cases res) (simp_all add: mu)
qed

text \<open>
  C4, on the code: \<open>a.txt\<close> and then \<open>b.txt\<close> are deleted with success, and \<open>undo(1)\<close>
  is called. It selects the delete of \<open>b.txt\<close>, finds its row, and raises
  \<open>AttributeError\<close> in \<open>TrashItem(row)\<close> before anything is moved: \<open>b.txt\<close> is not back at
  its path, and no operation is marked undone.
\<close>

theorem undo_after_two_deletes:
  "fst (delete ex_env ex_d1 ''/home/u/a.txt'' [] None False ex_state) = Inr True
   \<and> fst (delete ex_env ex_d2 ''/home/u/b.txt'' [] None False ex_after_a) = Inr True
   \<and> undo 1 ex_after_ab = (Some AttributeError, ex_after_ab)
   \<and> map_of (fs ex_after_ab) ''/home/u/b.txt'' = None
   \<and> map undone (operations ex_after_ab) = [False, False]"
  by code_simp

text \<open>
  C5, on the code: two items of 5 and 6 bytes are in the trash and the quota is
  \<open>0.000000001\<close> GB, that is 1 byte. The total exceeds the quota, the eviction loop meets
  the oldest row, and \<open>purge\<close> raises \<open>AttributeError\<close> in \<open>TrashItem(row)\<close>: nothing is
  removed, and the non-restored rows still exceed the quota.
\<close>

theorem purge_quota_raises:
  "total_size (trash_items ex_after_ab) = 11
   \<and> int_of_float (1 / 1000000000 * 1024 * 1024 * 1024) = 1
   \<and> purge ex_env None (Some (1 / 1000000000)) False 3000 ex_after_ab
       = (Some AttributeError, ex_after_ab)
   \<and> map row_id (not_restored (trash_items ex_after_ab)) = [''id1'', ''id2'']"
  by code_simp

text \<open>
  C6, on the code: \<open>purge(older_than=0)\<close> fails the truth test \<open>if older_than:\<close>, reaches
  the final \<open>else\<close> and returns; it changes nothing in any state, and in the example the
  two non-restored items stay.
\<close>

theorem purge_older_than_zero:
  "purge e (Some 0) None dry_run t s = (None, s)
   \<and> map row_id (not_restored (trash_items (snd (purge ex_env (Some 0) None False 3000 ex_after_ab))))
       = [''id1'', ''id2'']"
proof -
  have "purge e' (Some 0) None dr t' s' = (None, s')" for e' dr t' s'
    by (simp add: purge_def items_to_purge_def)
  moreover have "map row_id (not_restored (trash_items ex_after_ab)) = [''id1'', ''id2'']"
    by code_simp
  ultimately show ?thesis by simp
qed

text \<open>
  C9, on the code: \<open>undo\<close> never changes the file system, in any state. In the example
  \<open>a.txt\<close> has been deleted and a new file written at its path: \<open>undo(1)\<close> raises
  \<open>AttributeError\<close> in \<open>TrashItem(row)\<close>, the new file is not replaced and the trashed
  copy stays in the holding area; \<open>restore\<close> raises the same error instead of skipping.
\<close>

theorem undo_over_existing_file:
  "fs (snd (undo count s)) = fs s
   \<and> undo 1 ex_recreated = (Some AttributeError, ex_recreated)
   \<and> map_of (fs ex_recreated) ''/home/u/a.txt'' = Some (File ''new'' True)
   \<and> map_of (fs ex_recreated) ''/home/u/.trashbin/files/id1/a.txt'' = Some (File ''hello'' True)
   \<and> restore ex_env (Some ''a.txt'') None False False ex_recreated
       = (Inl AttributeError, ex_recreated)"
proof -
  have "fs (snd (undo count s)) = fs s"
    by (simp add: undo_def Let_def fs_undo_ops)
  moreover have "undo 1 ex_recreated = (Some AttributeError, ex_recreated)
   \<and> map_of (fs ex_recreated) ''/home/u/a.txt'' = Some (File ''new'' True)
   \<and> map_of (fs ex_recreated) ''/home/u/.trashbin/files/id1/a.txt'' = Some (File ''hello'' True)
   \<and> restore ex_env (Some ''a.txt'') None False False ex_recreated
       = (Inl AttributeError, ex_recreated)"
    by code_simp
  ultimately show ?thesis by simp
qed

end
